theory Spec2Isabelle
  imports Main
begin

section \<open>JavaScript values\<close>

text \<open>
  The template factory of \<^verbatim>\<open>main.js\<close> handles untyped JavaScript values: a template is
  a string or a function, a url is a string, a function, \<^verbatim>\<open>null\<close> or \<^verbatim>\<open>undefined\<close>, a
  result is a string, a promise or \<^verbatim>\<open>null\<close>. A promise is represented by the way it
  eventually settles. A function value is a reference; what calling it does is given by
  the environment below. An object is the list of its own properties, the first binding
  of a name being its value. Numbers are restricted to integers.
\<close>

datatype ('e, 'a) promise = Fulfilled 'a | Rejected 'e | Pending

datatype jsval =
    VUndefined
  | VNull
  | VBool bool
  | VNum int
  | VStr string
  | VObj "(string \<times> jsval) list"
  | VFun nat
  | VTypeError
  | VPromise "(jsval, jsval) promise"

datatype error = Thrown jsval

type_synonym 'a result = "error + 'a"

text \<open>\<^verbatim>\<open>angular.isDefined(v)\<close> is \<^verbatim>\<open>typeof v !== 'undefined'\<close>.\<close>

definition isDefined :: "jsval \<Rightarrow> bool" where
  "isDefined v = (v \<noteq> VUndefined)"

text \<open>\<^verbatim>\<open>angular.isFunction(v)\<close> is \<^verbatim>\<open>typeof v === 'function'\<close>.\<close>

fun isFunction :: "jsval \<Rightarrow> bool" where
  "isFunction (VFun f) = True"
| "isFunction v = False"

text \<open>The loose comparison \<^verbatim>\<open>v == null\<close> holds of \<^verbatim>\<open>null\<close> and \<^verbatim>\<open>undefined\<close> only.\<close>

definition loosely_null :: "jsval \<Rightarrow> bool" where
  "loosely_null v = (v = VNull \<or> v = VUndefined)"

text \<open>Truthiness, as \<^verbatim>\<open>||\<close> tests it.\<close>

fun truthy :: "jsval \<Rightarrow> bool" where
  "truthy VUndefined = False"
| "truthy VNull = False"
| "truthy (VBool b) = b"
| "truthy (VNum n) = (n \<noteq> 0)"
| "truthy (VStr s) = (s \<noteq> [])"
| "truthy v = True"

definition js_or :: "jsval \<Rightarrow> jsval \<Rightarrow> jsval" where
  "js_or a b = (if truthy a then a else b)"

text \<open>
  Reading a property \<^verbatim>\<open>v.name\<close>: a TypeError on \<^verbatim>\<open>null\<close> and \<^verbatim>\<open>undefined\<close>, the
  property's value on an object, \<^verbatim>\<open>undefined\<close> when the object does not have it. The
  other values have none of the properties the factory reads.
\<close>

fun member :: "jsval \<Rightarrow> string \<Rightarrow> jsval result" where
  "member VUndefined name = Inl (Thrown VTypeError)"
| "member VNull name = Inl (Thrown VTypeError)"
| "member (VObj props) name =
     Inr (case map_of props name of None \<Rightarrow> VUndefined | Some v \<Rightarrow> v)"
| "member v name = Inr VUndefined"

section \<open>The services the factory is constructed with\<close>

text \<open>
  \<^verbatim>\<open>$TemplateFactory($http, $templateCache, $injector)\<close> receives its collaborators as
  arguments. They belong to the host framework, so they are parameters of the model:
  each is a function of the state \<open>'x\<close> of everything outside the factory (the network,
  the cache, the injector's instances, the variables of the user's functions), which it
  may change, and each may throw.
    \<^item> \<open>apply_fn f this args\<close> calls the function value \<open>VFun f\<close>;
    \<^item> \<open>http_get url config\<close> is \<^verbatim>\<open>$http.get(url, config)\<close>, returning a promise;
    \<^item> \<open>injector_get name\<close> is the injector's lookup of a named service;
    \<^item> \<open>injector_invoke fn self locals\<close> is \<^verbatim>\<open>$injector.invoke(fn, self, locals)\<close>;
    \<^item> \<open>templateCache\<close> is the \<^verbatim>\<open>$templateCache\<close> object.
\<close>

record 'x env =
  apply_fn :: "nat \<Rightarrow> jsval \<Rightarrow> jsval list \<Rightarrow> 'x \<Rightarrow> jsval result \<times> 'x"
  http_get :: "jsval \<Rightarrow> jsval \<Rightarrow> 'x \<Rightarrow> (jsval, jsval) promise result \<times> 'x"
  injector_get :: "jsval \<Rightarrow> 'x \<Rightarrow> jsval result \<times> 'x"
  injector_invoke :: "jsval \<Rightarrow> jsval \<Rightarrow> jsval \<Rightarrow> 'x \<Rightarrow> jsval result \<times> 'x"
  templateCache :: jsval

text \<open>
  Every call the factory itself makes to a collaborator is recorded, in order, so that
  "performs no fetch" and "exactly one GET" can be stated. The collaborators see and
  change \<open>ext\<close> only.
\<close>

datatype event =
    Apply nat jsval "jsval list"
  | HttpGet jsval jsval
  | InjectorInvoke jsval jsval jsval
  | InjectorInvokeAnnotated jsval

record 'x world =
  calls :: "event list"
  ext :: 'x

type_synonym ('x, 'a) js = "'x world \<Rightarrow> 'a result \<times> 'x world"

definition ret :: "'a \<Rightarrow> ('x, 'a) js" where
  "ret v = (\<lambda>w. (Inr v, w))"

definition throw :: "error \<Rightarrow> ('x, 'a) js" where
  "throw e = (\<lambda>w. (Inl e, w))"

definition bind :: "('x, 'a) js \<Rightarrow> ('a \<Rightarrow> ('x, 'b) js) \<Rightarrow> ('x, 'b) js" where
  "bind m k = (\<lambda>w. case m w of (Inl e, w') \<Rightarrow> (Inl e, w') | (Inr v, w') \<Rightarrow> k v w')"

definition external :: "event \<Rightarrow> ('x \<Rightarrow> 'a result \<times> 'x) \<Rightarrow> ('x, 'a) js" where
  "external ev op =
     (\<lambda>w. case op (ext w) of (r, x') \<Rightarrow> (r, \<lparr>calls = calls w @ [ev], ext = x'\<rparr>))"

definition get :: "jsval \<Rightarrow> string \<Rightarrow> ('x, jsval) js" where
  "get obj name = (\<lambda>w. (member obj name, w))"

text \<open>A call \<^verbatim>\<open>f(args)\<close> or \<^verbatim>\<open>obj.f(args)\<close>: a TypeError when \<open>f\<close> is not a function.\<close>

definition call_function :: "'x env \<Rightarrow> jsval \<Rightarrow> jsval \<Rightarrow> jsval list \<Rightarrow> ('x, jsval) js" where
  "call_function env fv this args =
     (case fv of
        VFun f \<Rightarrow> external (Apply f this args) (apply_fn env f this args)
      | _ \<Rightarrow> throw (Thrown VTypeError))"

definition call_method :: "'x env \<Rightarrow> jsval \<Rightarrow> string \<Rightarrow> jsval list \<Rightarrow> ('x, jsval) js" where
  "call_method env obj name args =
     bind (get obj name) (\<lambda>m. call_function env m obj args)"

text \<open>
  Modelled from the spec: the promise implementation of the host framework is not among
  the sources. "Deferred: a value representing an asynchronous computation not yet
  complete"; the fetch branch returns "a deferred that resolves to the response body".
  \<open>p.then(cb)\<close> is the promise that, once \<open>p\<close> is fulfilled with \<open>v\<close>, resolves to
  \<open>cb(v)\<close> (following it when it is itself a promise), is rejected when \<open>cb\<close> throws,
  and is rejected as \<open>p\<close> is when \<open>p\<close> is rejected.
\<close>

definition resolve_to :: "jsval \<Rightarrow> (jsval, jsval) promise" where
  "resolve_to v = (case v of VPromise p \<Rightarrow> p | _ \<Rightarrow> Fulfilled v)"

fun then_promise ::
  "(jsval, jsval) promise \<Rightarrow> (jsval \<Rightarrow> jsval result) \<Rightarrow> (jsval, jsval) promise" where
  "then_promise (Fulfilled v) cb =
     (case cb v of Inl (Thrown e) \<Rightarrow> Rejected e | Inr r \<Rightarrow> resolve_to r)"
| "then_promise (Rejected e) cb = Rejected e"
| "then_promise Pending cb = Pending"

text \<open>
  Modelled from the spec: the injector of the host framework is not among the sources.
  For \<^verbatim>\<open>$injector.invoke([name, fn])\<close>, the array form without locals, the injector
  "look[s] up the named service through dependency injection" and applies \<open>fn\<close> to it.
\<close>

definition invoke_annotated ::
  "'x env \<Rightarrow> jsval \<Rightarrow> (jsval \<Rightarrow> ('x, jsval) js) \<Rightarrow> ('x, jsval) js" where
  "invoke_annotated env name fn =
     bind (external (InjectorInvokeAnnotated name) (injector_get env name)) fn"

section \<open>The template factory\<close>

text \<open>\<^verbatim>\<open>fromString\<close>, lines 69 to 71.\<close>

definition fromString :: "'x env \<Rightarrow> jsval \<Rightarrow> jsval \<Rightarrow> ('x, jsval) js" where
  "fromString env template params =
     (if isFunction template then call_function env template VUndefined [params]
      else ret template)"

text \<open>
  \<^verbatim>\<open>fromUrl\<close>, lines 82 to 94. \<open>resolve_url\<close> is the first statement (lines 83 to 85),
  \<open>response_data\<close> the callback \<^verbatim>\<open>function(response) { return response.data; }\<close>.
\<close>

definition resolve_url :: "'x env \<Rightarrow> jsval \<Rightarrow> jsval \<Rightarrow> ('x, jsval) js" where
  "resolve_url env url params =
     (if isFunction url then call_function env url VUndefined [params] else ret url)"

definition response_data :: "jsval \<Rightarrow> jsval result" where
  "response_data response = member response ''data''"

definition cache_option :: "'x env \<Rightarrow> jsval" where
  "cache_option env = VObj [(''cache'', templateCache env)]"

definition fromUrl :: "'x env \<Rightarrow> jsval \<Rightarrow> jsval \<Rightarrow> ('x, jsval) js" where
  "fromUrl env url params =
     bind (resolve_url env url params) (\<lambda>url.
       if loosely_null url then ret VNull
       else bind (external (HttpGet url (cache_option env))
                    (http_get env url (cache_option env)))
              (\<lambda>p. ret (VPromise (then_promise p response_data))))"

text \<open>\<^verbatim>\<open>fromProvider\<close>, lines 106 to 108.\<close>

definition fromProvider :: "'x env \<Rightarrow> jsval \<Rightarrow> jsval \<Rightarrow> jsval \<Rightarrow> ('x, jsval) js" where
  "fromProvider env provider params locals =
     external (InjectorInvoke provider VNull (js_or locals (VObj [(''params'', params)])))
       (injector_invoke env provider VNull (js_or locals (VObj [(''params'', params)])))"

text \<open>\<^verbatim>\<open>fromService\<close>, lines 120 to 122.\<close>

definition fromService :: "'x env \<Rightarrow> jsval \<Rightarrow> jsval \<Rightarrow> jsval \<Rightarrow> ('x, jsval) js" where
  "fromService env serviceName params locals =
     invoke_annotated env serviceName
       (\<lambda>service. call_method env service ''getTemplate'' [params, locals])"

text \<open>\<^verbatim>\<open>fromConfig\<close>, lines 49 to 57: each field is read once to test it and once to pass it.\<close>

definition fromConfig :: "'x env \<Rightarrow> jsval \<Rightarrow> jsval \<Rightarrow> jsval \<Rightarrow> ('x, jsval) js" where
  "fromConfig env config params locals =
     bind (get config ''template'') (\<lambda>t.
       if isDefined t
       then bind (get config ''template'') (\<lambda>template. fromString env template params)
       else bind (get config ''templateUrl'') (\<lambda>u.
         if isDefined u
         then bind (get config ''templateUrl'') (\<lambda>url. fromUrl env url params)
         else bind (get config ''templateProvider'') (\<lambda>p.
           if isDefined p
           then bind (get config ''templateProvider'')
                  (\<lambda>provider. fromProvider env provider params locals)
           else bind (get config ''templateService'') (\<lambda>s.
             if isDefined s
             then bind (get config ''templateService'')
                    (\<lambda>serviceName. fromService env serviceName params locals)
             else ret VNull))))"

section \<open>The resolver as the specification words it\<close>

text \<open>
  The specification describes the dispatch as a search: of the four fields, in the fixed
  order template, templateUrl, templateProvider, templateService, the first one that is
  defined is used, with the strategy that belongs to it. \<open>spec_fromConfig\<close> follows
  these words; it is compared with \<open>fromConfig\<close> below.
\<close>

datatype strategy = Template | TemplateUrl | TemplateProvider | TemplateService

fun field_name :: "strategy \<Rightarrow> string" where
  "field_name Template = ''template''"
| "field_name TemplateUrl = ''templateUrl''"
| "field_name TemplateProvider = ''templateProvider''"
| "field_name TemplateService = ''templateService''"

definition priority_order :: "strategy list" where
  "priority_order = [Template, TemplateUrl, TemplateProvider, TemplateService]"

definition field :: "(string \<times> jsval) list \<Rightarrow> string \<Rightarrow> jsval" where
  "field props name = (case map_of props name of None \<Rightarrow> VUndefined | Some v \<Rightarrow> v)"

definition first_defined :: "(string \<times> jsval) list \<Rightarrow> strategy option" where
  "first_defined props = find (\<lambda>s. isDefined (field props (field_name s))) priority_order"

fun run_strategy ::
  "'x env \<Rightarrow> strategy \<Rightarrow> jsval \<Rightarrow> jsval \<Rightarrow> jsval \<Rightarrow> ('x, jsval) js" where
  "run_strategy env Template v params locals = fromString env v params"
| "run_strategy env TemplateUrl v params locals = fromUrl env v params"
| "run_strategy env TemplateProvider v params locals = fromProvider env v params locals"
| "run_strategy env TemplateService v params locals = fromService env v params locals"

definition spec_fromConfig ::
  "'x env \<Rightarrow> (string \<times> jsval) list \<Rightarrow> jsval \<Rightarrow> jsval \<Rightarrow> ('x, jsval) js" where
  "spec_fromConfig env props params locals =
     (case first_defined props of
        None \<Rightarrow> ret VNull
      | Some s \<Rightarrow> run_strategy env s (field props (field_name s)) params locals)"

section \<open>Observing a run\<close>

text \<open>The fetches among the recorded calls, and the calls a run adds to the record.\<close>

definition is_fetch :: "event \<Rightarrow> bool" where
  "is_fetch ev = (case ev of HttpGet url config \<Rightarrow> True | _ \<Rightarrow> False)"

definition fetches :: "'x world \<Rightarrow> event list" where
  "fetches w = filter is_fetch (calls w)"


definition fresh :: "'x \<Rightarrow> 'x world" where
  "fresh x = \<lparr>calls = [], ext = x\<rparr>"



section \<open>The factory instance\<close>




section \<open>A concrete environment\<close>

text \<open>
  An environment to run the factory in. The outside state counts the requests served,
  through \<open>tick\<close>. Function 0 returns its first argument, function 1 returns
  \<^verbatim>\<open>null\<close>, function 2 returns nothing, function 3 returns a url, function 4 returns its
  second argument, any other function throws. One url can be fetched and one service,
  whose \<^verbatim>\<open>getTemplate\<close> is function 4, is registered. The injector passes
  \<^verbatim>\<open>locals.params\<close> to the function it invokes.
\<close>

definition demo_apply :: "nat \<Rightarrow> jsval \<Rightarrow> jsval list \<Rightarrow> jsval result" where
  "demo_apply f this args =
     (if f = 0 then Inr (case args of [] \<Rightarrow> VUndefined | a # rest \<Rightarrow> a)
      else if f = 1 then Inr VNull
      else if f = 2 then Inr VUndefined
      else if f = 3 then Inr (VStr ''/partials/home.html'')
      else if f = 4 then Inr (case args of [a, b] \<Rightarrow> b | _ \<Rightarrow> VUndefined)
      else Inl (Thrown (VStr ''boom'')))"

definition demo_http :: "jsval \<Rightarrow> jsval \<Rightarrow> (jsval, jsval) promise result" where
  "demo_http url config =
     (if url = VStr ''/partials/home.html''
      then Inr (Fulfilled (VObj [(''data'', VStr ''<p>home</p>''), (''status'', VNum 200)]))
      else Inr (Rejected (VObj [(''status'', VNum 404)])))"

definition demo_service :: jsval where
  "demo_service = VObj [(''getTemplate'', VFun 4)]"

definition demo_get :: "jsval \<Rightarrow> jsval result" where
  "demo_get name =
     (if name = VStr ''homeTemplates'' then Inr demo_service
      else Inl (Thrown (VStr ''unknown provider'')))"

definition demo_invoke :: "jsval \<Rightarrow> jsval \<Rightarrow> jsval \<Rightarrow> jsval result" where
  "demo_invoke fn self locals =
     (case fn of
        VFun f \<Rightarrow> (case member locals ''params'' of
                     Inl e \<Rightarrow> Inl e
                   | Inr v \<Rightarrow> demo_apply f self [v])
      | _ \<Rightarrow> Inl (Thrown VTypeError))"

definition demo_env :: "(nat \<Rightarrow> nat) \<Rightarrow> nat env" where
  "demo_env tick =
     \<lparr>apply_fn = (\<lambda>f this args x. (demo_apply f this args, tick x)),
      http_get = (\<lambda>url config x. (demo_http url config, tick x)),
      injector_get = (\<lambda>name x. (demo_get name, tick x)),
      injector_invoke = (\<lambda>fn self locals x. (demo_invoke fn self locals, tick x)),
      templateCache = VObj [(''id'', VStr ''templates'')]\<rparr>"

definition demo_params :: jsval where
  "demo_params = VObj [(''id'', VNum 7)]"


section \<open>Running the definitions\<close>

lemma bind_ret: "bind (ret v) k = k v"
  by (simp add: bind_def ret_def)

lemma get_obj: "get (VObj props) name = ret (field props name)"
  by (simp add: get_def ret_def field_def)

lemma external_run:
  "external ev op w =
     (fst (op (ext w)), \<lparr>calls = calls w @ [ev], ext = snd (op (ext w))\<rparr>)"
  by (simp add: external_def split: prod.split)

text \<open>On a configuration object the reads cannot fail, and the dispatch is a plain chain.\<close>

lemma fromConfig_obj:
  "fromConfig env (VObj props) params locals =
     (if isDefined (field props ''template'')
        then fromString env (field props ''template'') params
      else if isDefined (field props ''templateUrl'')
        then fromUrl env (field props ''templateUrl'') params
      else if isDefined (field props ''templateProvider'')
        then fromProvider env (field props ''templateProvider'') params locals
      else if isDefined (field props ''templateService'')
        then fromService env (field props ''templateService'') params locals
      else ret VNull)"
  by (simp add: fromConfig_def get_obj bind_ret)

lemma fromString_literal: "\<not> isFunction t \<Longrightarrow> fromString env t params w = (Inr t, w)"
  by (simp add: fromString_def ret_def)

lemma fromString_function:
  "fromString env (VFun f) params w =
     (fst (apply_fn env f VUndefined [params] (ext w)),
      \<lparr>calls = calls w @ [Apply f VUndefined [params]],
       ext = snd (apply_fn env f VUndefined [params] (ext w))\<rparr>)"
  by (simp add: fromString_def call_function_def external_run)

lemma demo_env_sel:
  "apply_fn (demo_env tick) f this args x = (demo_apply f this args, tick x)"
  "http_get (demo_env tick) url config x = (demo_http url config, tick x)"
  "injector_get (demo_env tick) name x = (demo_get name, tick x)"
  "injector_invoke (demo_env tick) fn self locals x = (demo_invoke fn self locals, tick x)"
  "templateCache (demo_env tick) = VObj [(''id'', VStr ''templates'')]"
  by (simp_all add: demo_env_def)

lemmas demo_run =
  demo_env_sel demo_apply_def demo_http_def demo_get_def demo_invoke_def demo_service_def
  demo_params_def fresh_def field_def isDefined_def fetches_def is_fetch_def

section \<open>The dispatch of fromConfig\<close>

text \<open>
  C1. For every configuration object, \<open>fromConfig\<close> is the resolver of the
  specification: it runs the strategy of the first field that is defined, in the order
  template, templateUrl, templateProvider, templateService, on that field's value,
  whatever the other fields hold. In particular, when template and templateUrl are both
  defined, the template strategy \<open>fromString\<close> is the one that runs.
\<close>

theorem fromConfig_priority:
  "fromConfig env (VObj props) params locals = spec_fromConfig env props params locals
   \<and> (isDefined (field props ''template'') \<and> isDefined (field props ''templateUrl'') \<longrightarrow>
        fromConfig env (VObj props) params locals
          = fromString env (field props ''template'') params)"
  by (simp add: fromConfig_obj spec_fromConfig_def first_defined_def priority_order_def)

theorem fromConfig_priority_witness:
  "isDefined (field [(''templateUrl'', VStr ''/partials/home.html''),
                     (''template'', VStr ''<b>inline</b>'')] ''template'')
   \<and> isDefined (field [(''templateUrl'', VStr ''/partials/home.html''),
                       (''template'', VStr ''<b>inline</b>'')] ''templateUrl'')
   \<and> fromConfig (demo_env Suc)
        (VObj [(''templateUrl'', VStr ''/partials/home.html''),
               (''template'', VStr ''<b>inline</b>'')])
        demo_params VUndefined (fresh 0)
      = (Inr (VStr ''<b>inline</b>''), fresh 0)"
  using fromConfig_priority [of "demo_env Suc"
      "[(''templateUrl'', VStr ''/partials/home.html''), (''template'', VStr ''<b>inline</b>'')]"
      demo_params VUndefined]
  by (simp add: field_def isDefined_def fresh_def fromString_def ret_def
      spec_fromConfig_def first_defined_def priority_order_def)

text \<open>
  C7. For every configuration object in which none of template, templateUrl,
  templateProvider and templateService is defined, the empty object among them,
  \<open>fromConfig\<close> returns \<^verbatim>\<open>null\<close> and leaves the world as it found it: no call to a
  collaborator is recorded (no strategy, no fetch, no injection) and the outside state
  is unchanged.
\<close>

theorem fromConfig_none:
  "field props ''template'' = VUndefined \<and> field props ''templateUrl'' = VUndefined
   \<and> field props ''templateProvider'' = VUndefined
   \<and> field props ''templateService'' = VUndefined
   \<Longrightarrow> fromConfig env (VObj props) params locals w = (Inr VNull, w)"
  by (simp add: fromConfig_obj isDefined_def ret_def)

theorem fromConfig_none_witness:
  "fromConfig (demo_env Suc) (VObj []) demo_params VUndefined (fresh 0) = (Inr VNull, fresh 0)
   \<and> fromConfig (demo_env Suc)
        (VObj [(''controller'', VStr ''HomeCtrl''), (''template'', VUndefined)])
        demo_params VUndefined (fresh 0) = (Inr VNull, fresh 0)"
  using fromConfig_none [of "[]" "demo_env Suc" demo_params VUndefined "fresh 0"]
    fromConfig_none [of "[(''controller'', VStr ''HomeCtrl''), (''template'', VUndefined)]"
      "demo_env Suc" demo_params VUndefined "fresh 0"]
  by (simp add: field_def)



section \<open>The string strategy\<close>

text \<open>
  C3. A template that is a literal string is returned unchanged by \<open>fromString\<close>, and
  by \<open>fromConfig\<close> on a configuration with that template only. A template that is a
  function is called once, with \<open>params\<close> as its only argument, and \<open>fromString\<close>
  returns exactly what that call returns (or throws what it throws); \<open>fromConfig\<close>
  does the same on a configuration with that template only.
\<close>

theorem fromString_result:
  "fromString env (VStr s) params w = (Inr (VStr s), w)
   \<and> fromConfig env (VObj [(''template'', VStr s)]) params locals w = (Inr (VStr s), w)
   \<and> fromString env (VFun f) params w =
       (fst (apply_fn env f VUndefined [params] (ext w)),
        \<lparr>calls = calls w @ [Apply f VUndefined [params]],
         ext = snd (apply_fn env f VUndefined [params] (ext w))\<rparr>)
   \<and> fromConfig env (VObj [(''template'', VFun f)]) params locals w =
       fromString env (VFun f) params w"
  by (simp add: fromConfig_obj fromString_literal fromString_function field_def isDefined_def)

theorem fromString_result_witness:
  "fromString (demo_env Suc) (VStr ''<b>inline</b>'') demo_params (fresh 0)
     = (Inr (VStr ''<b>inline</b>''), fresh 0)
   \<and> fromConfig (demo_env Suc) (VObj [(''template'', VFun 0)]) demo_params VUndefined (fresh 0)
     = (Inr demo_params, \<lparr>calls = [Apply 0 VUndefined [demo_params]], ext = 1\<rparr>)"
  using fromString_result [of "demo_env Suc" "''<b>inline</b>''" demo_params "fresh 0"
      VUndefined 0]
  by (simp add: demo_run)

section \<open>The url strategy\<close>

lemma fetches_append:
  "fetches \<lparr>calls = calls w @ [ev], ext = x\<rparr>
     = fetches w @ (if is_fetch ev then [ev] else [])"
  by (simp add: fetches_def)

lemma resolve_url_literal: "\<not> isFunction url \<Longrightarrow> resolve_url env url params = ret url"
  by (simp add: resolve_url_def)

lemma resolve_url_function:
  "resolve_url env (VFun f) params =
     external (Apply f VUndefined [params]) (apply_fn env f VUndefined [params])"
  by (simp add: resolve_url_def call_function_def)

lemma fromUrl_literal:
  "\<not> isFunction url \<Longrightarrow>
     fromUrl env url params w =
       (if loosely_null url then (Inr VNull, w)
        else (case fst (http_get env url (cache_option env) (ext w)) of
                Inl e \<Rightarrow> Inl e
              | Inr p \<Rightarrow> Inr (VPromise (then_promise p response_data)),
              \<lparr>calls = calls w @ [HttpGet url (cache_option env)],
               ext = snd (http_get env url (cache_option env) (ext w))\<rparr>))"
  by (simp add: fromUrl_def resolve_url_literal bind_ret)
     (simp add: bind_def ret_def external_run split: sum.split)

lemma fromUrl_function:
  "fromUrl env (VFun f) params w =
     (case fst (apply_fn env f VUndefined [params] (ext w)) of
        Inl e \<Rightarrow> (Inl e, \<lparr>calls = calls w @ [Apply f VUndefined [params]],
                          ext = snd (apply_fn env f VUndefined [params] (ext w))\<rparr>)
      | Inr u \<Rightarrow>
          (if loosely_null u
           then (Inr VNull, \<lparr>calls = calls w @ [Apply f VUndefined [params]],
                          ext = snd (apply_fn env f VUndefined [params] (ext w))\<rparr>)
           else (case fst (http_get env u (cache_option env)
                             (snd (apply_fn env f VUndefined [params] (ext w)))) of
                   Inl e \<Rightarrow> Inl e
                 | Inr p \<Rightarrow> Inr (VPromise (then_promise p response_data)),
                 \<lparr>calls = calls w @ [Apply f VUndefined [params], HttpGet u (cache_option env)],
                  ext = snd (http_get env u (cache_option env)
                               (snd (apply_fn env f VUndefined [params] (ext w))))\<rparr>)))"
  by (simp add: fromUrl_def resolve_url_function bind_def ret_def external_run split: sum.split)

text \<open>
  C4. \<open>fromUrl\<close> first replaces a url that is a function by what the function returns
  for \<open>params\<close>: the function is called once with \<open>params\<close>, and \<open>fromUrl\<close>
  goes on as it does on the returned url. When the url is \<^verbatim>\<open>null\<close>, given as such or
  returned by the function, \<open>fromUrl\<close> returns \<^verbatim>\<open>null\<close> and no fetch is performed.
\<close>

theorem fromUrl_null:
  "fromUrl env VNull params w = (Inr VNull, w)
   \<and> (apply_fn env f VUndefined [params] (ext w) = (Inr VNull, x') \<longrightarrow>
        fromUrl env (VFun f) params w
          = (Inr VNull, \<lparr>calls = calls w @ [Apply f VUndefined [params]], ext = x'\<rparr>)
        \<and> fetches (snd (fromUrl env (VFun f) params w)) = fetches w)
   \<and> (apply_fn env f VUndefined [params] (ext w) = (Inr u, x') \<and> \<not> isFunction u \<longrightarrow>
        fromUrl env (VFun f) params w
          = fromUrl env u params \<lparr>calls = calls w @ [Apply f VUndefined [params]], ext = x'\<rparr>)"
  by (simp add: fromUrl_literal fromUrl_function loosely_null_def fetches_append is_fetch_def)

theorem fromUrl_null_witness:
  "fromUrl (demo_env Suc) (VFun 1) demo_params (fresh 0)
     = (Inr VNull, \<lparr>calls = [Apply 1 VUndefined [demo_params]], ext = 1\<rparr>)
   \<and> fetches (snd (fromUrl (demo_env Suc) (VFun 1) demo_params (fresh 0))) = []
   \<and> fromUrl (demo_env Suc) (VFun 3) demo_params (fresh 0)
     = fromUrl (demo_env Suc) (VStr ''/partials/home.html'') demo_params
         \<lparr>calls = [Apply 3 VUndefined [demo_params]], ext = 1\<rparr>"
  using fromUrl_null [where env = "demo_env Suc" and params = demo_params and w = "fresh 0"
      and f = 1 and x' = 1 and u = VNull]
    fromUrl_null [where env = "demo_env Suc" and params = demo_params and w = "fresh 0"
      and f = 3 and x' = 1 and u = "VStr ''/partials/home.html''"]
  by (simp add: demo_run)

text \<open>
  C10. The test is the loose \<^verbatim>\<open>url == null\<close>: a url that is \<^verbatim>\<open>undefined\<close>, given as
  such or returned by the url function, also makes \<open>fromUrl\<close> return \<^verbatim>\<open>null\<close>
  without a fetch. A url function that returns \<^verbatim>\<open>undefined\<close> and one that returns
  \<^verbatim>\<open>null\<close> give the caller the same result, the same outside state and the same
  fetches.
\<close>

theorem fromUrl_undefined:
  "fromUrl env VUndefined params w = (Inr VNull, w)
   \<and> (apply_fn env f VUndefined [params] (ext w) = (Inr VUndefined, x') \<longrightarrow>
        fromUrl env (VFun f) params w
          = (Inr VNull, \<lparr>calls = calls w @ [Apply f VUndefined [params]], ext = x'\<rparr>)
        \<and> fetches (snd (fromUrl env (VFun f) params w)) = fetches w)
   \<and> (apply_fn env f VUndefined [params] (ext w) = (Inr VUndefined, x')
        \<and> apply_fn env g VUndefined [params] (ext w) = (Inr VNull, x') \<longrightarrow>
        fst (fromUrl env (VFun f) params w) = fst (fromUrl env (VFun g) params w)
        \<and> ext (snd (fromUrl env (VFun f) params w)) = ext (snd (fromUrl env (VFun g) params w))
        \<and> fetches (snd (fromUrl env (VFun f) params w))
            = fetches (snd (fromUrl env (VFun g) params w)))"
  by (simp add: fromUrl_literal fromUrl_function loosely_null_def fetches_append is_fetch_def)

theorem fromUrl_undefined_witness:
  "fromUrl (demo_env Suc) (VFun 2) demo_params (fresh 0)
     = (Inr VNull, \<lparr>calls = [Apply 2 VUndefined [demo_params]], ext = 1\<rparr>)
   \<and> fetches (snd (fromUrl (demo_env Suc) (VFun 2) demo_params (fresh 0))) = []
   \<and> fst (fromUrl (demo_env Suc) (VFun 2) demo_params (fresh 0))
       = fst (fromUrl (demo_env Suc) (VFun 1) demo_params (fresh 0))"
  using fromUrl_undefined [where env = "demo_env Suc" and params = demo_params and w = "fresh 0"
      and f = 2 and g = 1 and x' = 1]
  by (simp add: demo_run fromUrl_function loosely_null_def)

text \<open>
  C5. When the resolved url is not null (the code's test: neither \<^verbatim>\<open>null\<close> nor
  \<^verbatim>\<open>undefined\<close>), \<open>fromUrl\<close> performs exactly one fetch, \<^verbatim>\<open>$http.get\<close> of that url
  with the option object \<^verbatim>\<open>{ cache: $templateCache }\<close>, and returns the promise
  obtained from the fetch's promise by the callback that takes the response's
  \<^verbatim>\<open>data\<close> field: once the fetch is fulfilled with a response object, the returned
  promise resolves to the response's data, not to the response; a rejected fetch
  rejects it for the same reason.
\<close>

theorem fromUrl_fetch:
  "(\<not> isFunction url \<and> \<not> loosely_null url \<longrightarrow>
      fromUrl env url params w =
        (case fst (http_get env url (VObj [(''cache'', templateCache env)]) (ext w)) of
           Inl e \<Rightarrow> Inl e
         | Inr p \<Rightarrow> Inr (VPromise (then_promise p response_data)),
         \<lparr>calls = calls w @ [HttpGet url (VObj [(''cache'', templateCache env)])],
          ext = snd (http_get env url (VObj [(''cache'', templateCache env)]) (ext w))\<rparr>)
      \<and> fetches (snd (fromUrl env url params w))
          = fetches w @ [HttpGet url (VObj [(''cache'', templateCache env)])])
   \<and> (apply_fn env f VUndefined [params] (ext w) = (Inr u, x') \<and> \<not> loosely_null u \<longrightarrow>
      fromUrl env (VFun f) params w =
        (case fst (http_get env u (VObj [(''cache'', templateCache env)]) x') of
           Inl e \<Rightarrow> Inl e
         | Inr p \<Rightarrow> Inr (VPromise (then_promise p response_data)),
         \<lparr>calls = calls w @ [Apply f VUndefined [params],
                              HttpGet u (VObj [(''cache'', templateCache env)])],
          ext = snd (http_get env u (VObj [(''cache'', templateCache env)]) x')\<rparr>)
      \<and> fetches (snd (fromUrl env (VFun f) params w))
          = fetches w @ [HttpGet u (VObj [(''cache'', templateCache env)])])
   \<and> then_promise (Fulfilled (VObj props)) response_data = resolve_to (field props ''data'')
   \<and> (field props ''data'' = VStr body \<longrightarrow>
        then_promise (Fulfilled (VObj props)) response_data = Fulfilled (VStr body))
   \<and> then_promise (Rejected reason) response_data = Rejected reason"
  by (simp add: fromUrl_literal fromUrl_function cache_option_def fetches_def is_fetch_def
      response_data_def field_def resolve_to_def)

theorem fromUrl_fetch_witness:
  "fromUrl (demo_env Suc) (VStr ''/partials/home.html'') demo_params (fresh 0)
     = (Inr (VPromise (Fulfilled (VStr ''<p>home</p>''))),
        \<lparr>calls = [HttpGet (VStr ''/partials/home.html'')
                     (VObj [(''cache'', VObj [(''id'', VStr ''templates'')])])],
         ext = 1\<rparr>)
   \<and> fromUrl (demo_env Suc) (VFun 3) demo_params (fresh 0)
     = (Inr (VPromise (Fulfilled (VStr ''<p>home</p>''))),
        \<lparr>calls = [Apply 3 VUndefined [demo_params],
                   HttpGet (VStr ''/partials/home.html'')
                     (VObj [(''cache'', VObj [(''id'', VStr ''templates'')])])],
         ext = 2\<rparr>)"
  using fromUrl_fetch [where url = "VStr ''/partials/home.html''" and env = "demo_env Suc"
      and params = demo_params and w = "fresh 0" and f = 3
      and u = "VStr ''/partials/home.html''" and x' = 1
      and props = "[(''data'', VStr ''<p>home</p>''), (''status'', VNum 200)]"
      and body = "''<p>home</p>''"]
  by (simp add: demo_run loosely_null_def response_data_def resolve_to_def)

section \<open>The provider strategy\<close>

lemma fromProvider_run:
  "fromProvider env provider params locals w =
     (fst (injector_invoke env provider VNull (js_or locals (VObj [(''params'', params)])) (ext w)),
      \<lparr>calls = calls w
                @ [InjectorInvoke provider VNull (js_or locals (VObj [(''params'', params)]))],
       ext = snd (injector_invoke env provider VNull
                    (js_or locals (VObj [(''params'', params)])) (ext w))\<rparr>)"
  by (simp add: fromProvider_def external_run)

text \<open>
  C6. \<open>fromProvider\<close> makes one call, \<^verbatim>\<open>$injector.invoke(provider, null, l)\<close>, and
  returns its outcome unchanged. The locals \<open>l\<close> supplied are the given locals when
  locals is provided, that is, an object; they are \<^verbatim>\<open>{ params: params }\<close> when locals
  is absent (\<^verbatim>\<open>undefined\<close>). In general the choice is made by \<^verbatim>\<open>||\<close>: the given
  locals when they are truthy, as every object is, the default otherwise.
\<close>

theorem fromProvider_locals:
  "fromProvider env provider params (VObj props) w =
     (fst (injector_invoke env provider VNull (VObj props) (ext w)),
      \<lparr>calls = calls w @ [InjectorInvoke provider VNull (VObj props)],
       ext = snd (injector_invoke env provider VNull (VObj props) (ext w))\<rparr>)
   \<and> fromProvider env provider params VUndefined w =
     (fst (injector_invoke env provider VNull (VObj [(''params'', params)]) (ext w)),
      \<lparr>calls = calls w @ [InjectorInvoke provider VNull (VObj [(''params'', params)])],
       ext = snd (injector_invoke env provider VNull (VObj [(''params'', params)]) (ext w))\<rparr>)
   \<and> fromProvider env provider params locals w =
     (fst (injector_invoke env provider VNull
             (if truthy locals then locals else VObj [(''params'', params)]) (ext w)),
      \<lparr>calls = calls w
                @ [InjectorInvoke provider VNull
                     (if truthy locals then locals else VObj [(''params'', params)])],
       ext = snd (injector_invoke env provider VNull
                    (if truthy locals then locals else VObj [(''params'', params)]) (ext w))\<rparr>)"
  by (simp add: fromProvider_run js_or_def)

theorem fromProvider_locals_witness:
  "fromProvider (demo_env Suc) (VFun 0) demo_params VUndefined (fresh 0)
     = (Inr demo_params,
        \<lparr>calls = [InjectorInvoke (VFun 0) VNull (VObj [(''params'', demo_params)])], ext = 1\<rparr>)
   \<and> fromProvider (demo_env Suc) (VFun 0) demo_params (VObj [(''params'', VStr ''other'')]) (fresh 0)
     = (Inr (VStr ''other''),
        \<lparr>calls = [InjectorInvoke (VFun 0) VNull (VObj [(''params'', VStr ''other'')])], ext = 1\<rparr>)"
  using fromProvider_locals [where env = "demo_env Suc" and provider = "VFun 0"
      and params = demo_params and w = "fresh 0" and props = "[(''params'', VStr ''other'')]"
      and locals = VUndefined]
  by (simp add: demo_run)

section \<open>The service strategy\<close>

lemma fromService_run:
  "injector_get env name (ext w) = (Inr service, x1) \<Longrightarrow>
   member service ''getTemplate'' = Inr (VFun f) \<Longrightarrow>
   fromService env name params locals w =
     (fst (apply_fn env f service [params, locals] x1),
      \<lparr>calls = calls w @ [InjectorInvokeAnnotated name, Apply f service [params, locals]],
       ext = snd (apply_fn env f service [params, locals] x1)\<rparr>)"
  by (simp add: fromService_def invoke_annotated_def call_method_def call_function_def
      bind_def get_def external_run)

text \<open>
  C2. The service strategy looks the named service up through the injector, calls its
  \<^verbatim>\<open>getTemplate\<close> method and returns the result, but it hands \<open>locals\<close> to the method
  as received: when locals is absent the method is called with \<open>params\<close> and
  \<^verbatim>\<open>undefined\<close>, not with \<open>params\<close> and \<^verbatim>\<open>{ params: params }\<close>. Run here on the
  registered service, whose \<^verbatim>\<open>getTemplate\<close> returns its second argument: through
  \<open>fromService\<close> and through \<open>fromConfig\<close> with templateService alone, locals
  absent, the result is \<^verbatim>\<open>undefined\<close>; with locals given, the method receives them.
  The provider strategy, run with locals absent, does supply \<^verbatim>\<open>{ params: params }\<close>.
\<close>

theorem fromService_locals_not_defaulted:
  "fromService (demo_env Suc) (VStr ''homeTemplates'') demo_params VUndefined (fresh 0)
     = (Inr VUndefined,
        \<lparr>calls = [InjectorInvokeAnnotated (VStr ''homeTemplates''),
                   Apply 4 demo_service [demo_params, VUndefined]],
         ext = 2\<rparr>)
   \<and> fromConfig (demo_env Suc) (VObj [(''templateService'', VStr ''homeTemplates'')])
        demo_params VUndefined (fresh 0)
     = (Inr VUndefined,
        \<lparr>calls = [InjectorInvokeAnnotated (VStr ''homeTemplates''),
                   Apply 4 demo_service [demo_params, VUndefined]],
         ext = 2\<rparr>)
   \<and> fromService (demo_env Suc) (VStr ''homeTemplates'') demo_params
        (VObj [(''user'', VStr ''ann'')]) (fresh 0)
     = (Inr (VObj [(''user'', VStr ''ann'')]),
        \<lparr>calls = [InjectorInvokeAnnotated (VStr ''homeTemplates''),
                   Apply 4 demo_service [demo_params, VObj [(''user'', VStr ''ann'')]]],
         ext = 2\<rparr>)
   \<and> fromProvider (demo_env Suc) (VFun 0) demo_params VUndefined (fresh 0)
     = (Inr demo_params,
        \<lparr>calls = [InjectorInvoke (VFun 0) VNull (VObj [(''params'', demo_params)])], ext = 1\<rparr>)"
proof -
  have lookup: "injector_get (demo_env Suc) (VStr ''homeTemplates'') (ext (fresh 0))
               = (Inr demo_service, 1)"
    by (simp add: demo_env_sel demo_get_def fresh_def)
  have meth: "member demo_service ''getTemplate'' = Inr (VFun 4)"
    by (simp add: demo_service_def)
  have absent:
    "fromService (demo_env Suc) (VStr ''homeTemplates'') demo_params VUndefined (fresh 0)
     = (Inr VUndefined,
        \<lparr>calls = [InjectorInvokeAnnotated (VStr ''homeTemplates''),
                   Apply 4 demo_service [demo_params, VUndefined]],
         ext = 2\<rparr>)"
    using fromService_run [OF lookup meth, of demo_params VUndefined]
    by (simp add: demo_env_sel demo_apply_def fresh_def)
  have given:
    "fromService (demo_env Suc) (VStr ''homeTemplates'') demo_params
        (VObj [(''user'', VStr ''ann'')]) (fresh 0)
     = (Inr (VObj [(''user'', VStr ''ann'')]),
        \<lparr>calls = [InjectorInvokeAnnotated (VStr ''homeTemplates''),
                   Apply 4 demo_service [demo_params, VObj [(''user'', VStr ''ann'')]]],
         ext = 2\<rparr>)"
    using fromService_run [OF lookup meth, of demo_params "VObj [(''user'', VStr ''ann'')]"]
    by (simp add: demo_env_sel demo_apply_def fresh_def)
  have config:
    "fromConfig (demo_env Suc) (VObj [(''templateService'', VStr ''homeTemplates'')])
        demo_params VUndefined
     = fromService (demo_env Suc) (VStr ''homeTemplates'') demo_params VUndefined"
    by (simp add: fromConfig_obj field_def isDefined_def)
  have provider:
    "fromProvider (demo_env Suc) (VFun 0) demo_params VUndefined (fresh 0)
     = (Inr demo_params,
        \<lparr>calls = [InjectorInvoke (VFun 0) VNull (VObj [(''params'', demo_params)])], ext = 1\<rparr>)"
    by (simp add: fromProvider_run js_or_def demo_env_sel demo_invoke_def demo_apply_def fresh_def)
  show ?thesis
    using absent given provider by (simp add: config)
qed

section \<open>Statelessness\<close>





















end
